theory Spec2Isabelle
  imports Complex_Main "HOL-Library.Monad_Syntax" "HOL-Library.Signed_Division" "HOL-Library.Word"
    "HOL-Library.Log_Nat"
begin

section \<open>Fixed-precision tensors of the secret-sharing notebook (Part 12)\<close>

text \<open>
  The notebook works on two-dimensional tensors of fixed-precision numbers. A tensor is
  a row-major nested list of integers ("Secure Multi-Party Computation only works on
  Longs"); integers are unbounded here, so the wrap-around of the library's field is not
  part of the model. A tensor literal of the notebook is never empty and never ragged.
\<close>

type_synonym tensor = "int list list"

definition is_tensor :: "tensor \<Rightarrow> bool" where
  "is_tensor A \<longleftrightarrow>
     A \<noteq> [] \<and> hd A \<noteq> [] \<and> list_all (\<lambda>row. length row = length (hd A)) A"

definition has_shape :: "nat \<Rightarrow> nat \<Rightarrow> tensor \<Rightarrow> bool" where
  "has_shape r c A \<longleftrightarrow> length A = r \<and> list_all (\<lambda>row. length row = c) A"

definition tabulate :: "nat \<Rightarrow> nat \<Rightarrow> (nat \<Rightarrow> nat \<Rightarrow> 'a) \<Rightarrow> 'a list list" where
  "tabulate r c f = map (\<lambda>i. map (\<lambda>j. f i j) [0..<c]) [0..<r]"

definition rows :: "tensor \<Rightarrow> nat" where
  "rows A = length A"

definition cols :: "tensor \<Rightarrow> nat" where
  "cols A = (case A of [] \<Rightarrow> 0 | row # _ \<Rightarrow> length row)"

text \<open>
  The tensor operations \<open>t\<close>, \<open>matmul\<close>, \<open>-\<close> and \<open>*\<close> that the notebook calls are
  library code that is not part of the notebook. The spec describes fixed precision as
  "encoding floating-point numbers as integers with an implicit scale factor to permit
  arithmetic"; a product of two encoded numbers carries the scale factor twice, and the
  library removes one of them. That rescaling is the parameter \<open>tr\<close> of \<open>matmul\<close> and
  \<open>mul\<close>. On shared tensors the operations are modelled by what they do to the value
  that \<open>get\<close> reconstructs. A size mismatch, on which the library raises, is \<open>None\<close>.
\<close>

text \<open>Modelled from the spec: \<open>t\<close>, the transposition of a tensor, is library code.\<close>

definition t :: "tensor \<Rightarrow> tensor" where
  "t A = map (\<lambda>j. map (\<lambda>row. row ! j) A) [0..<cols A]"

text \<open>
  Modelled from the spec: \<open>matmul\<close>, the matrix product of fixed-precision tensors, is
  library code; each entry is the rescaled sum of the products of a row and a column.
\<close>

definition dot :: "int list \<Rightarrow> int list \<Rightarrow> int" where
  "dot u v = sum_list (map2 (*) u v)"

definition matmul :: "(int \<Rightarrow> int) \<Rightarrow> tensor \<Rightarrow> tensor \<Rightarrow> tensor option" where
  "matmul tr A B =
     (if is_tensor A \<and> is_tensor B \<and> cols A = rows B
      then Some (map (\<lambda>row. map (\<lambda>col. tr (dot row col)) (t B)) A)
      else None)"

text \<open>
  Modelled from the spec: the element-wise operators of tensors are library code; they
  broadcast a dimension of size one.
\<close>

definition bdim :: "nat \<Rightarrow> nat \<Rightarrow> nat option" where
  "bdim a b =
     (if a = b then Some a else if a = 1 then Some b else if b = 1 then Some a else None)"

definition bget :: "tensor \<Rightarrow> nat \<Rightarrow> nat \<Rightarrow> int" where
  "bget A i j = A ! (if rows A = 1 then 0 else i) ! (if cols A = 1 then 0 else j)"

definition ewise :: "(int \<Rightarrow> int \<Rightarrow> int) \<Rightarrow> tensor \<Rightarrow> tensor \<Rightarrow> tensor option" where
  "ewise f A B =
     (if is_tensor A \<and> is_tensor B
      then (case (bdim (rows A) (rows B), bdim (cols A) (cols B)) of
              (Some r, Some c) \<Rightarrow>
                Some (tabulate r c (\<lambda>i j. f (bget A i j) (bget B i j)))
            | _ \<Rightarrow> None)
      else None)"

text \<open>Modelled from the spec: \<open>-\<close> on fixed-precision tensors is library code.\<close>

definition sub :: "tensor \<Rightarrow> tensor \<Rightarrow> tensor option" where
  "sub A B = ewise (\<lambda>a b. a - b) A B"

text \<open>
  Modelled from the spec: \<open>*\<close> on fixed-precision tensors is library code; every product
  is rescaled. Its right operand in the notebook is a one-dimensional tensor, which
  broadcasts as a row.
\<close>

definition mul :: "(int \<Rightarrow> int) \<Rightarrow> tensor \<Rightarrow> int list \<Rightarrow> tensor option" where
  "mul tr A v = ewise (\<lambda>a b. tr (a * b)) A [v]"

text \<open>
  Modelled from the spec: \<open>float_prec\<close> (also called \<open>float_precision\<close>) is library
  code; it undoes the encoding "as integers with an implicit scale factor" by dividing
  by the scale factor \<open>s\<close>. Decoded numbers are rationals: the rounding of the
  floating-point type is not modelled.
\<close>

definition float_prec :: "int \<Rightarrow> int \<Rightarrow> rat" where
  "float_prec s n = of_int n / of_int s"

subsection \<open>The training loop (cell 6)\<close>

record part12_state =
  model_enc :: tensor
  stdout :: "rat list"

text \<open>\<open>loss = err.get().abs().sum().float_prec()\<close>\<close>

definition loss :: "int \<Rightarrow> tensor \<Rightarrow> rat" where
  "loss s err = float_prec s (sum_list (map abs (concat err)))"

definition train_iteration ::
  "int \<Rightarrow> (int \<Rightarrow> int) \<Rightarrow> tensor \<Rightarrow> tensor \<Rightarrow> int list \<Rightarrow> part12_state \<Rightarrow> part12_state option"
where
  "train_iteration s tr data_enc target_enc learning_rate_fp st = do {
     pred \<leftarrow> matmul tr data_enc (model_enc st);
     err \<leftarrow> sub pred target_enc;
     update \<leftarrow> matmul tr (t data_enc) err;
     step \<leftarrow> mul tr update learning_rate_fp;
     model_enc' \<leftarrow> sub (model_enc st) step;
     Some \<lparr>model_enc = model_enc', stdout = stdout st @ [loss s err]\<rparr>
   }"

text \<open>\<open>for i in range(n): body\<close>, stopping at the first exception.\<close>

fun for_range :: "nat \<Rightarrow> ('s \<Rightarrow> 's option) \<Rightarrow> 's \<Rightarrow> 's option" where
  "for_range 0 body st = Some st"
| "for_range (Suc n) body st =
     (case body st of None \<Rightarrow> None | Some st' \<Rightarrow> for_range n body st')"

definition train ::
  "int \<Rightarrow> (int \<Rightarrow> int) \<Rightarrow> tensor \<Rightarrow> tensor \<Rightarrow> int list \<Rightarrow> tensor \<Rightarrow> part12_state option"
where
  "train s tr data_enc target_enc learning_rate_fp model_enc0 =
     for_range 20 (train_iteration s tr data_enc target_enc learning_rate_fp)
       \<lparr>model_enc = model_enc0, stdout = []\<rparr>"

subsection \<open>The notebook's values (cells 3 to 5)\<close>

text \<open>
  Modelled from the spec: \<open>fix_precision\<close> is library code; it is "encoding
  floating-point numbers as integers with an implicit scale factor" \<open>s\<close>: a number
  \<open>x\<close> becomes the integer nearest to \<open>x * s\<close>. Numbers before encoding are
  rationals (the literal \<open>0.1\<close> is the rational one tenth).
\<close>

definition fix_precision :: "int \<Rightarrow> rat \<Rightarrow> int" where
  "fix_precision s x = round (x * of_int s)"

text \<open>Modelled from the spec: \<open>fix_precision\<close> on a tensor encodes every entry.\<close>

definition fix_precision_tensor :: "int \<Rightarrow> rat list list \<Rightarrow> tensor" where
  "fix_precision_tensor s A = map (map (fix_precision s)) A"

text \<open>Modelled from the spec: \<open>float_precision\<close> on a tensor decodes every entry.\<close>

definition float_precision_tensor :: "int \<Rightarrow> tensor \<Rightarrow> rat list list" where
  "float_precision_tensor s A = map (map (float_prec s)) A"

definition data :: "rat list list" where
  "data = [[0, 0], [0, 1], [1, 0], [1, 1]]"

definition target :: "rat list list" where
  "target = [[0], [0], [1], [1]]"

definition model :: "rat list list" where
  "model = [[0], [0]]"

definition learning_rate :: rat where
  "learning_rate = 1 / 10"

text \<open>
  The two usual ways of removing a scale factor from a product: rounding down
  (Python's \<open>//\<close>) and rounding toward zero (the division of machine integers).
\<close>

definition trunc_floor :: "int \<Rightarrow> int \<Rightarrow> int" where
  "trunc_floor s v = v div s"

definition trunc_zero :: "int \<Rightarrow> int \<Rightarrow> int" where
  "trunc_zero s v = v sdiv s"

text \<open>The run of cell 6 on the notebook's values, at scale \<open>s\<close> with rescaling \<open>tr\<close>.\<close>

definition run_cell6 :: "int \<Rightarrow> (int \<Rightarrow> int) \<Rightarrow> part12_state option" where
  "run_cell6 s tr =
     train s tr (fix_precision_tensor s data) (fix_precision_tensor s target)
       [fix_precision s learning_rate] (fix_precision_tensor s model)"

text \<open>The losses that the notebook's saved output of cell 6 shows.\<close>

definition recorded_stdout :: "rat list" where
  "recorded_stdout =
     [2, 16 / 10, 13 / 10, 1072 / 1000, 896 / 1000, 758 / 1000, 648 / 1000, 56 / 100,
      488 / 1000, 428 / 1000, 376 / 1000, 334 / 1000, 296 / 1000, 264 / 1000, 236 / 1000,
      21 / 100, 19 / 100, 172 / 1000, 156 / 1000, 14 / 100]"

text \<open>
  One gradient-descent step for least-squares linear regression, entry by entry: with
  data \<open>X\<close>, target \<open>y\<close>, model \<open>M\<close> and learning rate \<open>l\<close>, the residual is
  \<open>X M - y\<close>, the gradient is \<open>X\<^sup>T (X M - y)\<close> and the new model is
  \<open>M - gradient * l\<close>; \<open>tr\<close> rescales each product of fixed-precision numbers.
\<close>

definition residual :: "(int \<Rightarrow> int) \<Rightarrow> tensor \<Rightarrow> tensor \<Rightarrow> tensor \<Rightarrow> nat \<Rightarrow> nat \<Rightarrow> int" where
  "residual tr X y M i c = tr (\<Sum>k<rows M. X ! i ! k * M ! k ! c) - y ! i ! c"

definition gradient :: "(int \<Rightarrow> int) \<Rightarrow> tensor \<Rightarrow> tensor \<Rightarrow> tensor \<Rightarrow> nat \<Rightarrow> nat \<Rightarrow> int" where
  "gradient tr X y M j c = tr (\<Sum>i<rows X. X ! i ! j * residual tr X y M i c)"

definition gradient_descent_step ::
  "(int \<Rightarrow> int) \<Rightarrow> tensor \<Rightarrow> tensor \<Rightarrow> int \<Rightarrow> tensor \<Rightarrow> tensor"
where
  "gradient_descent_step tr X y l M =
     tabulate (rows M) (cols M) (\<lambda>j c. M ! j ! c - tr (gradient tr X y M j c * l))"

text \<open>The sum of squared residuals, the quantity that least-squares regression minimises.\<close>

definition squared_error :: "tensor \<Rightarrow> tensor \<Rightarrow> tensor \<Rightarrow> nat \<Rightarrow> int" where
  "squared_error X y M c = (\<Sum>i<rows X. (residual id X y M i c)\<^sup>2)"

subsection \<open>Workers and secret sharing (cells 2 and 5)\<close>

datatype worker = VirtualWorker string

definition alice :: worker where
  "alice = VirtualWorker ''alice''"

definition bob :: worker where
  "bob = VirtualWorker ''bob''"

definition james :: worker where
  "james = VirtualWorker ''james''"

text \<open>The workers that cell 2 creates.\<close>

definition workers :: "worker list" where
  "workers = [alice, bob, james]"

record shared_tensor =
  shares :: "(worker \<times> tensor) list"
  crypto_provider :: worker

text \<open>
  Modelled from the spec: \<open>share\<close> is library code; the spec describes it as
  "splitting a value into shares distributed across parties such that no single party can
  reconstruct it alone", with the crypto provider "a designated party supplying
  randomness". The model is additive sharing of each tensor entry in the integers modulo
  a field size \<open>Q\<close>: every owner but the last holds a random number, the last owner holds
  the entry minus the random numbers, and the shares add up to the entry modulo \<open>Q\<close>.
  The random numbers are the explicit argument \<open>rnd\<close> (owner index, row, column).
\<close>

definition share_value :: "int \<Rightarrow> int list \<Rightarrow> int \<Rightarrow> int list" where
  "share_value Q rs x = map (\<lambda>r. r mod Q) rs @ [(x - sum_list rs) mod Q]"

text \<open>
  Modelled from the spec: \<open>share\<close> on a tensor is library code; it shares every entry
  among the owners passed to it, in their order, and records the crypto provider.
\<close>

definition share ::
  "int \<Rightarrow> (nat \<Rightarrow> nat \<Rightarrow> nat \<Rightarrow> int) \<Rightarrow> tensor \<Rightarrow> worker list \<Rightarrow> worker \<Rightarrow> shared_tensor"
where
  "share Q rnd A owners provider =
     \<lparr>shares =
        map (\<lambda>k. (owners ! k,
                  tabulate (rows A) (cols A)
                    (\<lambda>i j. share_value Q (map (\<lambda>k'. rnd k' i j) [0..<length owners - 1])
                             (A ! i ! j) ! k)))
          [0..<length owners],
      crypto_provider = provider\<rparr>"

text \<open>
  Modelled from the spec: reconstructing a shared tensor is library code; the owners
  together obtain the sum of all shares modulo \<open>Q\<close>.
\<close>

definition reconstruct :: "int \<Rightarrow> shared_tensor \<Rightarrow> tensor" where
  "reconstruct Q e =
     (case shares e of
        [] \<Rightarrow> []
      | (w, S) # _ \<Rightarrow>
          tabulate (rows S) (cols S)
            (\<lambda>i j. sum_list (map (\<lambda>(w', S'). S' ! i ! j) (shares e)) mod Q))"

text \<open>What a single party holds of a shared tensor: the shares that it owns.\<close>

definition view :: "worker \<Rightarrow> shared_tensor \<Rightarrow> tensor list" where
  "view p e = map snd (filter (\<lambda>(w, S). w = p) (shares e))"

text \<open>The parties of a shared tensor: the owners of its shares and its crypto provider.\<close>

definition parties :: "shared_tensor \<Rightarrow> worker set" where
  "parties e = set (map fst (shares e)) \<union> {crypto_provider e}"

text \<open>
  Cell 5: the four \<open>fix_precision().share(alice, bob, crypto_provider=james)\<close> calls,
  each with the name of the variable it assigns. The learning rate is a tensor with one
  entry. \<open>rnd n\<close> is the randomness of the \<open>n\<close>-th call.
\<close>

definition cell5 ::
  "int \<Rightarrow> int \<Rightarrow> (nat \<Rightarrow> nat \<Rightarrow> nat \<Rightarrow> nat \<Rightarrow> int) \<Rightarrow> (string \<times> shared_tensor) list"
where
  "cell5 Q s rnd =
     [(''data_enc'', share Q (rnd 0) (fix_precision_tensor s data) [alice, bob] james),
      (''target_enc'', share Q (rnd 1) (fix_precision_tensor s target) [alice, bob] james),
      (''model_enc'', share Q (rnd 2) (fix_precision_tensor s model) [alice, bob] james),
      (''learning_rate_fp'',
         share Q (rnd 3) (fix_precision_tensor s [[learning_rate]]) [alice, bob] james)]"

section \<open>The Keras notebook (Part 13a)\<close>

subsection \<open>Preprocessing of the images\<close>

text \<open>
  \<open>mnist.load_data()\<close> is a library call; its result is the parameter of the model:
  images as nested lists (sample, row, column) of pixel bytes, and one label byte per
  image. After \<open>astype('float32')\<close> a number is a single-precision floating-point
  number, modelled as the rational that it denotes.
\<close>

type_synonym images = "8 word list list list"
type_synonym labels = "8 word list"

definition img_rows :: nat where
  "img_rows = 28"

definition img_cols :: nat where
  "img_cols = 28"

definition batch_size :: nat where
  "batch_size = 128"

definition num_classes :: nat where
  "num_classes = 10"

definition epochs :: nat where
  "epochs = 2"

definition input_shape :: "nat \<times> nat \<times> nat" where
  "input_shape = (img_rows, img_cols, 1)"

text \<open>
  \<open>x.reshape(n, r, c, ch)\<close>: the entries in row-major order, regrouped; an error
  (\<open>None\<close>) when the number of entries is not \<open>n * r * c * ch\<close>.
\<close>

definition reshape :: "nat \<Rightarrow> nat \<Rightarrow> nat \<Rightarrow> nat \<Rightarrow> 'a list list list \<Rightarrow> 'a list list list list option" where
  "reshape n r c ch x =
     (let flat = concat (concat x) in
      if length flat = n * r * c * ch
      then Some (map (\<lambda>a. map (\<lambda>b. map (\<lambda>d. map (\<lambda>e. flat ! (((a * r + b) * c + d) * ch + e))
                  [0..<ch]) [0..<c]) [0..<r]) [0..<n])
      else None)"

text \<open>
  The float32 type (IEEE 754 binary32): a significand of 24 bits and a binary exponent of
  at least \<open>- 126\<close>. The result of an arithmetic operation is the exact result rounded to
  the nearest number of the type, a tie going to the one with an even significand.
\<close>

definition round_half_even :: "rat \<Rightarrow> int" where
  "round_half_even x =
     (let f = \<lfloor>x\<rfloor>; r = x - of_int f
      in if r < 1 / 2 then f else if 1 / 2 < r then f + 1 else if even f then f else f + 1)"

text \<open>The binary exponent of a non-zero number \<open>q\<close>: the \<open>e\<close> with \<open>2\<^sup>e \<le> \<bar>q\<bar> < 2\<^sup>e\<^sup>+\<^sup>1\<close>.\<close>

definition exponent :: "rat \<Rightarrow> int" where
  "exponent q =
     (case quotient_of \<bar>q\<bar> of (a, b) \<Rightarrow>
        let d = int (floorlog 2 (nat a)) - int (floorlog 2 (nat b))
        in if 2 powi d \<le> \<bar>q\<bar> then d else d - 1)"

text \<open>
  Rounding to float32. Results of magnitude \<open>2\<^sup>1\<^sup>2\<^sup>8\<close> or more, which are infinite in the
  type, are not modelled; a byte divided by 255 is far from them.
\<close>

definition float32 :: "rat \<Rightarrow> rat" where
  "float32 q =
     (if q = 0 then 0
      else let u = 2 powi (max (exponent q) (- 126) - 23)
           in of_int (round_half_even (q / u)) * u)"

definition astype_float32 :: "8 word list list list list \<Rightarrow> rat list list list list" where
  "astype_float32 x = map (map (map (map (\<lambda>p. float32 (of_nat (unat p)))))) x"

text \<open>\<open>x /= k\<close> on a float32 array: each entry divided by \<open>k\<close> in float32.\<close>

definition divide_by :: "rat \<Rightarrow> rat list list list list \<Rightarrow> rat list list list list" where
  "divide_by k x = map (map (map (map (\<lambda>v. float32 (v / float32 k))))) x"

text \<open>
  \<open>x = x.reshape(x.shape[0], img_rows, img_cols, 1); x = x.astype('float32'); x /= 255\<close>
\<close>

definition preprocess :: "images \<Rightarrow> rat list list list list option" where
  "preprocess x =
     (case reshape (length x) img_rows img_cols 1 x of
        None \<Rightarrow> None
      | Some x' \<Rightarrow> Some (divide_by 255 (astype_float32 x')))"

definition entries :: "'a list list list list \<Rightarrow> 'a set" where
  "entries x = set (concat (concat (concat x)))"

text \<open>
  \<open>keras.utils.to_categorical(y, num_classes)\<close>: one row per label, with a one at the
  label's position; a label that is not below \<open>num_classes\<close> is an error.
\<close>

definition to_categorical :: "labels \<Rightarrow> nat \<Rightarrow> rat list list option" where
  "to_categorical y n =
     (if list_all (\<lambda>l. unat l < n) y
      then Some (map (\<lambda>l. map (\<lambda>c. if c = unat l then 1 else 0) [0..<n]) y)
      else None)"

subsection \<open>The model and its training (cells 1 and 2)\<close>

datatype layer =
    Conv2D nat "nat \<times> nat" "(nat \<times> nat \<times> nat) option"
  | AveragePooling2D "nat \<times> nat"
  | Activation string
  | Flatten
  | Dense nat string

record compile_args =
  loss_fn :: string
  optimizer :: string
  metrics :: "string list"

record sequential =
  layers :: "layer list"
  compiled :: "compile_args option"

definition Sequential :: sequential where
  "Sequential = \<lparr>layers = [], compiled = None\<rparr>"

definition add :: "layer \<Rightarrow> sequential \<Rightarrow> sequential" where
  "add l m = m\<lparr>layers := layers m @ [l]\<rparr>"

definition compile :: "compile_args \<Rightarrow> sequential \<Rightarrow> sequential" where
  "compile a m = m\<lparr>compiled := Some a\<rparr>"

text \<open>The statements from \<open>model = Sequential()\<close> to \<open>model.compile(...)\<close>, in order.\<close>

definition build_model :: sequential where
  "build_model =
     (let model = Sequential;
          model = add (Conv2D 10 (3, 3) (Some input_shape)) model;
          model = add (AveragePooling2D (2, 2)) model;
          model = add (Activation ''relu'') model;
          model = add (Conv2D 32 (3, 3) None) model;
          model = add (AveragePooling2D (2, 2)) model;
          model = add (Activation ''relu'') model;
          model = add (Conv2D 64 (3, 3) None) model;
          model = add (AveragePooling2D (2, 2)) model;
          model = add (Activation ''relu'') model;
          model = add Flatten model;
          model = add (Dense num_classes ''softmax'') model;
          model = compile \<lparr>loss_fn = ''categorical_crossentropy'', optimizer = ''Adadelta'',
                            metrics = [''accuracy'']\<rparr> model
      in model)"

text \<open>
  The calls of the notebook on the model after it is built: \<open>fit\<close>, \<open>evaluate\<close>
  and (cell 2) \<open>save\<close>, with their arguments. What the library does in these calls is
  not part of the model.
\<close>

datatype call =
    Fit "rat list list list list" "rat list list" nat nat nat
        "rat list list list list \<times> rat list list"
  | Evaluate "rat list list list list" "rat list list" nat
  | Save string

definition notebook_13a ::
  "(images \<times> labels) \<times> (images \<times> labels) \<Rightarrow> (sequential \<times> call list) option"
where
  "notebook_13a mnist =
     (case mnist of ((x_train, y_train), (x_test, y_test)) \<Rightarrow>
        do {
          x_train' \<leftarrow> preprocess x_train;
          x_test' \<leftarrow> preprocess x_test;
          y_train' \<leftarrow> to_categorical y_train num_classes;
          y_test' \<leftarrow> to_categorical y_test num_classes;
          Some (build_model,
                [Fit x_train' y_train' batch_size epochs 1 (x_test', y_test'),
                 Evaluate x_test' y_test' 0,
                 Save ''short-conv-mnist.h5''])
        })"

text \<open>
  Modelled from the spec: the shapes that the layers compute are library code. A
  convolution with an \<open>h\<close> by \<open>w\<close> kernel needs an input at least as large as the
  kernel and shortens the two spatial dimensions by \<open>h - 1\<close> and \<open>w - 1\<close> ("each 3x3
  convolution ... 28 to 26"); an average pooling with a 2 by 2 window needs an input at
  least as large as the window and halves the spatial dimensions, rounding down (11 to
  5); an activation keeps the shape; \<open>Flatten\<close> multiplies the dimensions out;
  \<open>Dense\<close> replaces the last dimension by its number of units.
\<close>

datatype shape = Map nat nat nat | Vec nat

fun output_shape :: "layer \<Rightarrow> shape \<Rightarrow> shape option" where
  "output_shape (Conv2D f (kh, kw) _) (Map h w c) =
     (if 0 < kh \<and> 0 < kw \<and> kh \<le> h \<and> kw \<le> w then Some (Map (h - kh + 1) (w - kw + 1) f)
      else None)"
| "output_shape (Conv2D f k _) (Vec n) = None"
| "output_shape (AveragePooling2D (ph, pw)) (Map h w c) =
     (if 0 < ph \<and> 0 < pw \<and> ph \<le> h \<and> pw \<le> w then Some (Map (h div ph) (w div pw) c)
      else None)"
| "output_shape (AveragePooling2D p) (Vec n) = None"
| "output_shape (Activation a) sh = Some sh"
| "output_shape Flatten (Map h w c) = Some (Vec (h * w * c))"
| "output_shape Flatten (Vec n) = Some (Vec n)"
| "output_shape (Dense u a) (Map h w c) = Some (Map h w u)"
| "output_shape (Dense u a) (Vec n) = Some (Vec u)"

text \<open>
  Modelled from the spec: the shapes after each layer of a stack, or \<open>None\<close> when a layer
  rejects its input.
\<close>

fun output_shapes :: "layer list \<Rightarrow> shape \<Rightarrow> shape list option" where
  "output_shapes [] sh = Some []"
| "output_shapes (l # ls) sh =
     (case output_shape l sh of
        None \<Rightarrow> None
      | Some sh' \<Rightarrow> map_option ((#) sh') (output_shapes ls sh'))"

section \<open>Properties of the tensor operations\<close>

lemma has_shape_tabulate: "has_shape r c (tabulate r c f)"
  by (simp add: has_shape_def tabulate_def list_all_iff)

lemma tabulate_nth: "i < r \<Longrightarrow> j < c \<Longrightarrow> tabulate r c f ! i ! j = f i j"
  by (simp add: tabulate_def)

lemma tabulate_cong:
  "(\<And>i j. i < r \<Longrightarrow> j < c \<Longrightarrow> f i j = g i j) \<Longrightarrow> tabulate r c f = tabulate r c g"
  by (simp add: tabulate_def)

lemma has_shape_row: "has_shape r c A \<Longrightarrow> i < r \<Longrightarrow> length (A ! i) = c"
  by (simp add: has_shape_def list_all_length)

lemma has_shape_is_tensor: "has_shape r c A \<Longrightarrow> 0 < r \<Longrightarrow> 0 < c \<Longrightarrow> is_tensor A"
  by (cases A) (auto simp: has_shape_def is_tensor_def list_all_iff)

lemma has_shape_rows: "has_shape r c A \<Longrightarrow> rows A = r"
  by (simp add: has_shape_def rows_def)

lemma has_shape_cols: "has_shape r c A \<Longrightarrow> 0 < r \<Longrightarrow> cols A = c"
  by (cases A) (auto simp: has_shape_def cols_def)

lemma dot_sum: "length u = k \<Longrightarrow> length v = k \<Longrightarrow> dot u v = (\<Sum>l<k. u ! l * v ! l)"
  by (simp add: dot_def sum_list_sum_nth atLeast0LessThan)

lemma map_by_index: "map f xs = map (\<lambda>i. f (xs ! i)) [0..<length xs]"
  by (rule nth_equalityI) simp_all

lemma t_tabulate:
  assumes "has_shape r c A" and "0 < r"
  shows "t A = tabulate c r (\<lambda>j i. A ! i ! j)"
proof -
  have "cols A = c" and "length A = r"
    using assms by (simp_all add: has_shape_cols has_shape_def)
  then show ?thesis
    unfolding t_def tabulate_def by (simp add: map_by_index [of _ A])
qed

lemma matmul_tabulate:
  assumes A: "has_shape n k A" and B: "has_shape k m B" and pos: "0 < n" "0 < k" "0 < m"
  shows "matmul tr A B = Some (tabulate n m (\<lambda>i j. tr (\<Sum>l<k. A ! i ! l * B ! l ! j)))"
proof -
  have ok: "is_tensor A" "is_tensor B" "cols A = rows B"
    using A B pos by (simp_all add: has_shape_is_tensor has_shape_rows has_shape_cols)
  have tB: "t B = tabulate m k (\<lambda>j l. B ! l ! j)"
    using B pos by (simp add: t_tabulate)
  have len: "length A = n" using A by (simp add: has_shape_def)
  have "map (\<lambda>row. map (\<lambda>col. tr (dot row col)) (t B)) A =
        tabulate n m (\<lambda>i j. tr (\<Sum>l<k. A ! i ! l * B ! l ! j))"
    unfolding tB
    by (auto simp: tabulate_def list_eq_iff_nth_eq len has_shape_row [OF A] dot_sum [where k = k]
             intro!: arg_cong [where f = tr] sum.cong)
  with ok show ?thesis by (simp add: matmul_def)
qed

lemma bdim_same: "bdim a a = Some a"
  by (simp add: bdim_def)

lemma bdim_one: "bdim a (Suc 0) = Some a"
  by (simp add: bdim_def)

lemma bget_in: "has_shape r c A \<Longrightarrow> 0 < r \<Longrightarrow> i < r \<Longrightarrow> j < c \<Longrightarrow> bget A i j = A ! i ! j"
  by (auto simp: bget_def has_shape_rows has_shape_cols)

lemma sub_tabulate:
  assumes A: "has_shape r c A" and B: "has_shape r c B" and pos: "0 < r" "0 < c"
  shows "sub A B = Some (tabulate r c (\<lambda>i j. A ! i ! j - B ! i ! j))"
  using assms
  by (simp add: sub_def ewise_def has_shape_is_tensor has_shape_rows has_shape_cols bdim_same
      bget_in cong: tabulate_cong)

lemma mul_tabulate:
  assumes A: "has_shape r c A" and pos: "0 < r" "0 < c"
  shows "mul tr A [l] = Some (tabulate r c (\<lambda>i j. tr (A ! i ! j * l)))"
proof -
  have L: "is_tensor [[l]]" "rows [[l]] = 1" "cols [[l]] = 1" "\<And>i j. bget [[l]] i j = l"
    by (simp_all add: is_tensor_def rows_def cols_def bget_def)
  show ?thesis using assms
    by (simp add: mul_def ewise_def has_shape_is_tensor has_shape_rows has_shape_cols bdim_one L
      bget_in cong: tabulate_cong)
qed

lemma train_iteration_step:
  assumes X: "has_shape n d X" and y: "has_shape n m y" and M: "has_shape d m (model_enc st)"
    and pos: "0 < n" "0 < d" "0 < m"
  shows "train_iteration s tr X y [l] st =
     Some \<lparr>model_enc = gradient_descent_step tr X y l (model_enc st),
           stdout = stdout st @ [loss s (tabulate n m (residual tr X y (model_enc st)))]\<rparr>"
proof -
  let ?M = "model_enc st"
  let ?pred = "tabulate n m (\<lambda>i c. tr (\<Sum>k<d. X ! i ! k * ?M ! k ! c))"
  let ?err = "tabulate n m (residual tr X y ?M)"
  let ?update = "tabulate d m (gradient tr X y ?M)"
  let ?step = "tabulate d m (\<lambda>j c. tr (gradient tr X y ?M j c * l))"
  have rM: "rows ?M = d" "cols ?M = m" and rX: "rows X = n"
    using X M pos by (simp_all add: has_shape_rows has_shape_cols)
  have 1: "matmul tr X ?M = Some ?pred"
    using X M pos by (rule matmul_tabulate)
  have 2: "sub ?pred y = Some ?err"
    using sub_tabulate [OF has_shape_tabulate y pos(1,3)]
    by (simp add: residual_def rM tabulate_nth cong: tabulate_cong)
  have "matmul tr (tabulate d n (\<lambda>j i. X ! i ! j)) ?err =
      Some (tabulate d m (\<lambda>j c. tr (\<Sum>i<n. tabulate d n (\<lambda>j i. X ! i ! j) ! j ! i * ?err ! i ! c)))"
    using has_shape_tabulate has_shape_tabulate pos(2,1,3) by (rule matmul_tabulate)
  then have 3: "matmul tr (t X) ?err = Some ?update"
    by (simp add: t_tabulate [OF X pos(1)] gradient_def rX tabulate_nth cong: tabulate_cong)
  have 4: "mul tr ?update [l] = Some ?step"
    using mul_tabulate [OF has_shape_tabulate pos(2,3)]
    by (simp add: tabulate_nth cong: tabulate_cong)
  have 5: "sub ?M ?step = Some (gradient_descent_step tr X y l ?M)"
    unfolding gradient_descent_step_def rM
    using sub_tabulate [OF M has_shape_tabulate pos(2,3)]
    by (simp add: tabulate_nth cong: tabulate_cong)
  show ?thesis
    by (simp add: train_iteration_def 1 2 3 4 5)
qed

lemma has_shape_gradient_descent_step:
  "has_shape d m M \<Longrightarrow> 0 < d \<Longrightarrow> has_shape d m (gradient_descent_step tr X y l M)"
  by (simp add: gradient_descent_step_def has_shape_rows has_shape_cols has_shape_tabulate)

lemma for_range_train_iteration:
  assumes X: "has_shape n d X" and y: "has_shape n m y" and pos: "0 < n" "0 < d" "0 < m"
  shows "has_shape d m (model_enc st) \<Longrightarrow>
     \<exists>st'. for_range k (train_iteration s tr X y [l]) st = Some st' \<and>
           model_enc st' = (gradient_descent_step tr X y l ^^ k) (model_enc st) \<and>
           length (stdout st') = length (stdout st) + k"
proof (induction k arbitrary: st)
  case 0
  then show ?case by simp
next
  case (Suc k)
  let ?st1 = "\<lparr>model_enc = gradient_descent_step tr X y l (model_enc st),
           stdout = stdout st @ [loss s (tabulate n m (residual tr X y (model_enc st)))]\<rparr>"
  have step: "train_iteration s tr X y [l] st = Some ?st1"
    using X y Suc.prems pos by (rule train_iteration_step)
  have "has_shape d m (model_enc ?st1)"
    using Suc.prems pos by (simp add: has_shape_gradient_descent_step)
  from Suc.IH [OF this] show ?case
    by (simp add: step funpow_swap1)
qed

text \<open>
  In exact arithmetic (no rescaling), moving one entry of the model by \<open>h\<close> changes the
  sum of squared residuals by \<open>2 * h * gradient\<close> plus a term in \<open>h\<^sup>2\<close>: the
  gradient above is the slope of the least-squares error, up to the factor 2.
\<close>

lemma residual_perturbed:
  assumes M: "has_shape d m M" and j: "j < d" and c: "c < m"
  shows "residual id X y (M[j := (M ! j)[c := M ! j ! c + h]]) i c =
         residual id X y M i c + h * X ! i ! j"
proof -
  let ?M' = "M[j := (M ! j)[c := M ! j ! c + h]]"
  have len: "length M = d" "length (M ! j) = m"
    using M j by (simp_all add: has_shape_def has_shape_row [OF M])
  have entry: "?M' ! k ! c = M ! k ! c + (if k = j then h else 0)" if "k < d" for k
    using that len c by (simp add: nth_list_update)
  have "(\<Sum>k<d. X ! i ! k * ?M' ! k ! c) = (\<Sum>k<d. X ! i ! k * M ! k ! c + (if k = j then X ! i ! j * h else 0))"
    by (rule sum.cong) (auto simp: entry distrib_left)
  also have "\<dots> = (\<Sum>k<d. X ! i ! k * M ! k ! c) + X ! i ! j * h"
    using j by (simp add: sum.distrib)
  finally show ?thesis
    using len by (simp add: residual_def rows_def)
qed

lemma gradient_is_slope_of_squared_error:
  assumes M: "has_shape d m M" and j: "j < d" and c: "c < m"
  shows "squared_error X y (M[j := (M ! j)[c := M ! j ! c + h]]) c - squared_error X y M c =
         2 * h * gradient id X y M j c + h\<^sup>2 * (\<Sum>i<rows X. (X ! i ! j)\<^sup>2)"
proof -
  let ?r = "\<lambda>i. residual id X y M i c"
  have "squared_error X y (M[j := (M ! j)[c := M ! j ! c + h]]) c =
        (\<Sum>i<rows X. (?r i)\<^sup>2 + 2 * h * (X ! i ! j * ?r i) + h\<^sup>2 * (X ! i ! j)\<^sup>2)"
    unfolding squared_error_def residual_perturbed [OF assms]
    by (rule sum.cong) (simp_all add: power2_eq_square algebra_simps)
  also have "\<dots> = squared_error X y M c + 2 * h * gradient id X y M j c +
        h\<^sup>2 * (\<Sum>i<rows X. (X ! i ! j)\<^sup>2)"
    by (simp add: sum.distrib sum_distrib_left squared_error_def gradient_def)
  finally show ?thesis by simp
qed
section \<open>Properties of the training loop\<close>

lemma run_cell6_floor:
  "run_cell6 1000 (trunc_floor 1000) =
     Some \<lparr>model_enc = [[941], [61]],
           stdout = [2, 8 / 5, 13 / 10, 134 / 125, 112 / 125, 379 / 500, 81 / 125, 14 / 25,
             243 / 500, 213 / 500, 187 / 500, 33 / 100, 73 / 250, 13 / 50, 29 / 125,
             26 / 125, 93 / 500, 83 / 500, 3 / 20, 17 / 125]\<rparr>"
  by code_simp

lemma run_cell6_zero:
  "run_cell6 1000 (trunc_zero 1000) =
     Some \<lparr>model_enc = [[936], [64]],
           stdout = [2, 8 / 5, 13 / 10, 134 / 125, 449 / 500, 19 / 25, 163 / 250, 141 / 250,
             123 / 250, 54 / 125, 191 / 500, 169 / 500, 151 / 500, 27 / 100, 121 / 500,
             109 / 500, 49 / 250, 22 / 125, 79 / 500, 71 / 500]\<rparr>"
  by code_simp

text \<open>
  The run that the notebook records used the library's arithmetic on shares, whose
  rescaling is not exact. Its losses lie, iteration by iteration, between those of the two
  exact runs, and agree with the run that rounds down for the first eight iterations.
\<close>

lemma recorded_stdout_between_exact_runs:
  "list_all2 (\<le>) (stdout (the (run_cell6 1000 (trunc_floor 1000)))) recorded_stdout \<and>
   list_all2 (\<le>) recorded_stdout (stdout (the (run_cell6 1000 (trunc_zero 1000)))) \<and>
   take 8 (stdout (the (run_cell6 1000 (trunc_floor 1000)))) = take 8 recorded_stdout"
  unfolding run_cell6_floor run_cell6_zero recorded_stdout_def by simp

text \<open>
  Claim C10. With exact integer arithmetic at scale 1000 (three decimal digits, the
  precision of the printed losses), the loop of cell 6 on the notebook's data, target,
  learning rate 0.1 and initial model runs its 20 iterations without error and prints 20
  losses; the first is 2.0 and each is strictly smaller than all printed before it. This
  holds for both ways of rescaling a product, rounding down and rounding toward zero.
\<close>

theorem loss_starts_at_2_and_strictly_decreases:
  "(\<exists>st. run_cell6 1000 (trunc_floor 1000) = Some st \<and> length (stdout st) = 20 \<and>
         hd (stdout st) = 2 \<and> sorted_wrt (\<lambda>a b. b < a) (stdout st)) \<and>
   (\<exists>st. run_cell6 1000 (trunc_zero 1000) = Some st \<and> length (stdout st) = 20 \<and>
         hd (stdout st) = 2 \<and> sorted_wrt (\<lambda>a b. b < a) (stdout st))"
  unfolding run_cell6_floor run_cell6_zero by simp

text \<open>
  Claim C1. For data of shape \<open>n\<close> by \<open>d\<close>, a target of shape \<open>n\<close> by \<open>m\<close>, a model
  of shape \<open>d\<close> by \<open>m\<close> and a learning rate with one entry, one iteration of the loop
  of cell 6 (\<open>pred = X.matmul(M)\<close>, \<open>err = pred - target\<close>,
  \<open>update = X.t().matmul(err)\<close>, \<open>M = M - update * learning_rate\<close>) raises no
  error, replaces the model by one gradient-descent step for least-squares regression, and
  prints the loss of the residual; the whole loop runs 20 such iterations, so the final model
  is the 20-fold gradient-descent step of the initial one and 20 losses are printed. This
  holds for every rescaling \<open>tr\<close> of products.
\<close>

theorem training_loop_is_gradient_descent:
  assumes "has_shape n d X" and "has_shape n m y" and "has_shape d m M"
    and "0 < n" and "0 < d" and "0 < m"
  shows "train_iteration s tr X y [l] \<lparr>model_enc = M, stdout = out\<rparr> =
           Some \<lparr>model_enc = gradient_descent_step tr X y l M,
                 stdout = out @ [loss s (tabulate n m (residual tr X y M))]\<rparr> \<and>
         (\<exists>st. train s tr X y [l] M = Some st \<and>
               model_enc st = (gradient_descent_step tr X y l ^^ 20) M \<and>
               length (stdout st) = 20)"
proof
  show "train_iteration s tr X y [l] \<lparr>model_enc = M, stdout = out\<rparr> =
           Some \<lparr>model_enc = gradient_descent_step tr X y l M,
                 stdout = out @ [loss s (tabulate n m (residual tr X y M))]\<rparr>"
    using train_iteration_step [of n d X m y "\<lparr>model_enc = M, stdout = out\<rparr>" s tr l] assms
    by simp
  show "\<exists>st. train s tr X y [l] M = Some st \<and>
               model_enc st = (gradient_descent_step tr X y l ^^ 20) M \<and>
               length (stdout st) = 20"
    using for_range_train_iteration [of n d X m y "\<lparr>model_enc = M, stdout = []\<rparr>" 20 s tr l] assms
    by (simp add: train_def)
qed

theorem training_loop_is_gradient_descent_witness:
  "has_shape 4 2 (fix_precision_tensor 1000 data) \<and>
   has_shape 4 1 (fix_precision_tensor 1000 target) \<and>
   has_shape 2 1 (fix_precision_tensor 1000 model) \<and> (0::nat) < 4 \<and> (0::nat) < 2 \<and> (0::nat) < 1 \<and>
   (gradient_descent_step (trunc_floor 1000) (fix_precision_tensor 1000 data)
      (fix_precision_tensor 1000 target) (fix_precision 1000 learning_rate) ^^ 20)
      (fix_precision_tensor 1000 model) = [[941], [61]]"
proof -
  have X: "has_shape 4 2 (fix_precision_tensor 1000 data)"
    and y: "has_shape 4 1 (fix_precision_tensor 1000 target)"
    and M: "has_shape 2 1 (fix_precision_tensor 1000 model)"
    by code_simp+
  have pos: "(0::nat) < 4" "(0::nat) < 2" "(0::nat) < 1"
    by simp_all
  from training_loop_is_gradient_descent [OF X y M pos,
      of 1000 "trunc_floor 1000" "fix_precision 1000 learning_rate" "[]"]
  obtain st where
    "train 1000 (trunc_floor 1000) (fix_precision_tensor 1000 data)
       (fix_precision_tensor 1000 target) [fix_precision 1000 learning_rate]
       (fix_precision_tensor 1000 model) = Some st"
    and "model_enc st =
      (gradient_descent_step (trunc_floor 1000) (fix_precision_tensor 1000 data)
        (fix_precision_tensor 1000 target) (fix_precision 1000 learning_rate) ^^ 20)
        (fix_precision_tensor 1000 model)"
    by blast
  with run_cell6_floor have
    "(gradient_descent_step (trunc_floor 1000) (fix_precision_tensor 1000 data)
        (fix_precision_tensor 1000 target) (fix_precision 1000 learning_rate) ^^ 20)
        (fix_precision_tensor 1000 model) = [[941], [61]]"
    by (simp add: run_cell6_def)
  with X y M pos show ?thesis by simp
qed

section \<open>Properties of secret sharing and fixed precision\<close>

lemma share_value_two: "share_value Q [r] x = [r mod Q, (x - r) mod Q]"
  by (simp add: share_value_def)

lemma rows_tabulate: "rows (tabulate r c f) = r"
  by (simp add: rows_def tabulate_def)

lemma cols_tabulate: "0 < r \<Longrightarrow> cols (tabulate r c f) = c"
  by (simp add: cols_def tabulate_def upt_conv_Cons split: list.splits)

lemma tabulate_no_rows: "tabulate 0 c f = []"
  by (simp add: tabulate_def)

lemma shares_two_owners:
  "shares (share Q rnd A [w0, w1] p) =
     [(w0, tabulate (rows A) (cols A) (\<lambda>i j. rnd 0 i j mod Q)),
      (w1, tabulate (rows A) (cols A) (\<lambda>i j. (A ! i ! j - rnd 0 i j) mod Q))]"
  by (simp add: share_def share_value_two upt_conv_Cons)

lemma reconstruct_share:
  "reconstruct Q (share Q rnd A [w0, w1] p) = tabulate (rows A) (cols A) (\<lambda>i j. A ! i ! j mod Q)"
proof (cases "rows A = 0")
  case True
  then show ?thesis
    by (simp add: reconstruct_def shares_two_owners rows_tabulate tabulate_no_rows rows_def)
next
  case False
  then have "0 < rows A" by simp
  then have "reconstruct Q (share Q rnd A [w0, w1] p) =
      tabulate (rows A) (cols A)
        (\<lambda>i j. (tabulate (rows A) (cols A) (\<lambda>i j. rnd 0 i j mod Q) ! i ! j +
                tabulate (rows A) (cols A) (\<lambda>i j. (A ! i ! j - rnd 0 i j) mod Q) ! i ! j) mod Q)"
    by (simp add: reconstruct_def shares_two_owners rows_tabulate cols_tabulate)
  also have "\<dots> = tabulate (rows A) (cols A) (\<lambda>i j. A ! i ! j mod Q)"
    by (rule tabulate_cong) (simp add: tabulate_nth mod_simps)
  finally show ?thesis .
qed

text \<open>
  With a field larger than the encoded values, what alice and bob reconstruct from the
  shared tensors of cell 5 are the fixed-precision values on which the loop is run.
\<close>

lemma fixed_values:
  "fix_precision_tensor 1000 data = [[0, 0], [0, 1000], [1000, 0], [1000, 1000]]"
  "fix_precision_tensor 1000 target = [[0], [0], [1000], [1000]]"
  "fix_precision_tensor 1000 model = [[0], [0]]"
  "fix_precision_tensor 1000 [[learning_rate]] = [[100]]"
  by (simp_all add: fix_precision_tensor_def fix_precision_def data_def target_def model_def
      learning_rate_def)

lemma reconstruct_cell5:
  assumes "1000 < Q"
  shows "map (\<lambda>(name, e). (name, reconstruct Q e)) (cell5 Q 1000 rnd) =
     [(''data_enc'', fix_precision_tensor 1000 data),
      (''target_enc'', fix_precision_tensor 1000 target),
      (''model_enc'', fix_precision_tensor 1000 model),
      (''learning_rate_fp'', [[fix_precision 1000 learning_rate]])]"
proof -
  have lr: "fix_precision 1000 learning_rate = 100"
    by (simp add: fix_precision_def learning_rate_def)
  show ?thesis
    using assms
    by (simp add: cell5_def reconstruct_share fixed_values lr tabulate_def rows_def cols_def
        upt_rec [of 0] upt_rec [of 1] upt_rec [of 2] upt_rec [of 3])
qed

lemma bob_share_unique:
  fixes Q x v :: int
  assumes "0 < Q"
  shows "{r \<in> {0..<Q}. (x - r) mod Q = v} = (if 0 \<le> v \<and> v < Q then {(x - v) mod Q} else {})"
proof -
  have "(x - r) mod Q = v \<longleftrightarrow> 0 \<le> v \<and> v < Q \<and> r = (x - v) mod Q" if r: "0 \<le> r" "r < Q" for r
  proof
    assume v: "(x - r) mod Q = v"
    have range: "0 \<le> v" "v < Q"
      using assms pos_mod_sign [of Q "x - r"] pos_mod_bound [of Q "x - r"] by (simp_all add: v)
    have "(x - (x - r) mod Q) mod Q = (x - (x - r)) mod Q"
      by (metis mod_diff_right_eq)
    also have "\<dots> = r"
      using r by simp
    finally have "r = (x - v) mod Q"
      by (simp only: v)
    with range show "0 \<le> v \<and> v < Q \<and> r = (x - v) mod Q"
      by blast
  next
    assume a: "0 \<le> v \<and> v < Q \<and> r = (x - v) mod Q"
    have "(x - (x - v) mod Q) mod Q = (x - (x - v)) mod Q"
      by (metis mod_diff_right_eq)
    also have "\<dots> = v"
      using a by simp
    finally show "(x - r) mod Q = v"
      using a by (simp only:)
  qed
  then show ?thesis
    using assms by auto
qed

lemma share_count_independent:
  assumes "0 < Q" and "k < 2"
  shows "card {r \<in> {0..<Q}. share_value Q [r] x ! k = v} =
         card {r \<in> {0..<Q}. share_value Q [r] x' ! k = v}"
proof -
  from \<open>k < 2\<close> consider "k = 0" | "k = 1"
    by linarith
  then show ?thesis
  proof cases
    case 1
    then show ?thesis by (simp add: share_value_two)
  next
    case 2
    then have bob: "share_value Q [r] z ! k = (z - r) mod Q" for r z
      by (simp add: share_value_two)
    show ?thesis
      unfolding bob bob_share_unique [OF assms(1)] by simp
  qed
qed


lemma workers_distinct:
  "alice \<noteq> bob" "alice \<noteq> james" "bob \<noteq> james"
  "bob \<noteq> alice" "james \<noteq> alice" "james \<noteq> bob"
  by (simp_all add: alice_def bob_def james_def)

lemma view_two_owners:
  "w0 \<noteq> w1 \<Longrightarrow> view q (share Q rnd A [w0, w1] p) =
     (if q = w0 then [tabulate (rows A) (cols A) (\<lambda>i j. rnd 0 i j mod Q)]
      else if q = w1 then [tabulate (rows A) (cols A) (\<lambda>i j. (A ! i ! j - rnd 0 i j) mod Q)]
      else [])"
  by (auto simp: view_def shares_two_owners)

text \<open>
  Claim C5. A tensor shared between alice and bob as in cell 5: whatever a single
  party holds is also what it would hold, for some other choice of the random numbers, if
  any other tensor of the same shape had been shared; and for each entry and each owner,
  the number of random choices that give the owner a particular share is the same whatever
  the entry is. A single share therefore carries no information about the plaintext.
\<close>

theorem single_share_reveals_nothing:
  assumes "0 < Q" and "k < 2" and "rows A' = rows A" and "cols A' = cols A"
  shows "(\<exists>rnd'. view p (share Q rnd' A' [alice, bob] james) =
                 view p (share Q rnd A [alice, bob] james)) \<and>
         card {r \<in> {0..<Q}. share_value Q [r] x ! k = v} =
         card {r \<in> {0..<Q}. share_value Q [r] x' ! k = v}"
proof
  let ?rnd' = "\<lambda>(n::nat) i j. rnd 0 i j + A' ! i ! j - A ! i ! j"
  show "\<exists>rnd'. view p (share Q rnd' A' [alice, bob] james) =
                 view p (share Q rnd A [alice, bob] james)"
  proof (cases "p = bob")
    case True
    have "view p (share Q ?rnd' A' [alice, bob] james) =
          view p (share Q rnd A [alice, bob] james)"
      using True assms(3,4) by (simp add: view_two_owners workers_distinct)
    then show ?thesis
      by (rule exI [where x = ?rnd'])
  next
    case False
    have "view p (share Q rnd A' [alice, bob] james) =
          view p (share Q rnd A [alice, bob] james)"
      using False assms(3,4) by (simp add: view_two_owners workers_distinct)
    then show ?thesis
      by (rule exI [where x = rnd])
  qed
  show "card {r \<in> {0..<Q}. share_value Q [r] x ! k = v} =
        card {r \<in> {0..<Q}. share_value Q [r] x' ! k = v}"
    using assms(1,2) by (rule share_count_independent)
qed

theorem single_share_reveals_nothing_witness:
  "(0::int) < 7 \<and> (1::nat) < 2 \<and> rows [[5]] = rows [[1]] \<and> cols [[5]] = cols [[1]] \<and>
   (\<exists>rnd'. view bob (share 7 rnd' [[5]] [alice, bob] james) =
           view bob (share 7 (\<lambda>n i j. 3) [[1]] [alice, bob] james)) \<and>
   card {r \<in> {0..<7}. share_value 7 [r] 1 ! 1 = 2} =
   card {r \<in> {0..<7}. share_value 7 [r] 5 ! 1 = 2}"
proof -
  have h: "(0::int) < 7" "(1::nat) < 2" "rows [[5]] = rows [[1]]" "cols [[5]] = cols [[1]]"
    by (simp_all add: rows_def cols_def)
  from single_share_reveals_nothing [OF h, of bob "\<lambda>n i j. 3" 1 2 5] h show ?thesis
    by blast
qed

lemma tabulate_mod:
  assumes "has_shape r c A" and "0 < r"
  shows "tabulate (rows A) (cols A) (\<lambda>i j. A ! i ! j mod Q) = map (map (\<lambda>v. v mod Q)) A"
proof -
  have rc: "rows A = r" "cols A = c"
    using assms by (simp_all add: has_shape_rows has_shape_cols)
  have len: "length A = r"
    using assms by (simp add: has_shape_def)
  have row: "map (\<lambda>j. A ! i ! j mod Q) [0..<c] = map (\<lambda>v. v mod Q) (A ! i)" if "i < r" for i
    using has_shape_row [OF assms(1) that] by (simp add: map_by_index [of _ "A ! i"])
  have "tabulate r c (\<lambda>i j. A ! i ! j mod Q) = map (\<lambda>i. map (\<lambda>v. v mod Q) (A ! i)) [0..<r]"
    unfolding tabulate_def by (rule map_cong) (simp_all add: row)
  also have "\<dots> = map (map (\<lambda>v. v mod Q)) A"
    by (simp add: map_by_index [of _ A] len)
  finally show ?thesis
    by (simp add: rc)
qed

lemma cell5_shapes:
  "has_shape 4 2 (fix_precision_tensor s data)"
  "has_shape 4 1 (fix_precision_tensor s target)"
  "has_shape 2 1 (fix_precision_tensor s model)"
  "has_shape 1 1 (fix_precision_tensor s [[learning_rate]])"
  by (simp_all add: has_shape_def fix_precision_tensor_def data_def target_def model_def)

lemma reconstruct_cell5_mod:
  "map (\<lambda>(name, e). (name, reconstruct Q e)) (cell5 Q s rnd) =
     [(''data_enc'', map (map (\<lambda>v. v mod Q)) (fix_precision_tensor s data)),
      (''target_enc'', map (map (\<lambda>v. v mod Q)) (fix_precision_tensor s target)),
      (''model_enc'', map (map (\<lambda>v. v mod Q)) (fix_precision_tensor s model)),
      (''learning_rate_fp'', map (map (\<lambda>v. v mod Q)) (fix_precision_tensor s [[learning_rate]]))]"
  by (simp add: cell5_def reconstruct_share tabulate_mod [OF cell5_shapes(1)]
      tabulate_mod [OF cell5_shapes(2)] tabulate_mod [OF cell5_shapes(3)]
      tabulate_mod [OF cell5_shapes(4)])

text \<open>
  Claim C3. Cell 5 makes four \<open>share\<close> calls, which share the fixed-precision encodings of
  the data, the target, the model and the learning rate: what the owners reconstruct from
  each shared tensor is the encoded tensor modulo the field size, and the encoded tensor
  itself when the field is larger than the encoded values. In each call, the workers that
  receive shares are alice and bob, the crypto provider is james, and together they are
  exactly the three distinct workers that cell 2 creates.
\<close>

theorem share_calls_use_the_three_workers:
  "map fst (cell5 Q s rnd) = [''data_enc'', ''target_enc'', ''model_enc'', ''learning_rate_fp''] \<and>
   distinct workers \<and>
   (\<forall>(name, e) \<in> set (cell5 Q s rnd).
      map fst (shares e) = [alice, bob] \<and> crypto_provider e = james \<and> parties e = set workers) \<and>
   map (\<lambda>(name, e). (name, reconstruct Q e)) (cell5 Q s rnd) =
     [(''data_enc'', map (map (\<lambda>v. v mod Q)) (fix_precision_tensor s data)),
      (''target_enc'', map (map (\<lambda>v. v mod Q)) (fix_precision_tensor s target)),
      (''model_enc'', map (map (\<lambda>v. v mod Q)) (fix_precision_tensor s model)),
      (''learning_rate_fp'',
         map (map (\<lambda>v. v mod Q)) (fix_precision_tensor s [[learning_rate]]))] \<and>
   (1000 < Q \<longrightarrow>
      map (\<lambda>(name, e). (name, reconstruct Q e)) (cell5 Q 1000 rnd) =
        [(''data_enc'', fix_precision_tensor 1000 data),
         (''target_enc'', fix_precision_tensor 1000 target),
         (''model_enc'', fix_precision_tensor 1000 model),
         (''learning_rate_fp'', [[fix_precision 1000 learning_rate]])])"
proof (intro conjI impI)
  show "map fst (cell5 Q s rnd) =
      [''data_enc'', ''target_enc'', ''model_enc'', ''learning_rate_fp'']"
    by (simp add: cell5_def)
  show "distinct workers"
    by (simp add: workers_def workers_distinct)
  show "\<forall>(name, e) \<in> set (cell5 Q s rnd).
      map fst (shares e) = [alice, bob] \<and> crypto_provider e = james \<and> parties e = set workers"
    by (auto simp: cell5_def parties_def shares_two_owners share_def workers_def)
  show "map (\<lambda>(name, e). (name, reconstruct Q e)) (cell5 Q s rnd) =
     [(''data_enc'', map (map (\<lambda>v. v mod Q)) (fix_precision_tensor s data)),
      (''target_enc'', map (map (\<lambda>v. v mod Q)) (fix_precision_tensor s target)),
      (''model_enc'', map (map (\<lambda>v. v mod Q)) (fix_precision_tensor s model)),
      (''learning_rate_fp'',
         map (map (\<lambda>v. v mod Q)) (fix_precision_tensor s [[learning_rate]]))]"
    by (rule reconstruct_cell5_mod)
  assume "1000 < Q"
  then show "map (\<lambda>(name, e). (name, reconstruct Q e)) (cell5 Q 1000 rnd) =
        [(''data_enc'', fix_precision_tensor 1000 data),
         (''target_enc'', fix_precision_tensor 1000 target),
         (''model_enc'', fix_precision_tensor 1000 model),
         (''learning_rate_fp'', [[fix_precision 1000 learning_rate]])]"
    by (rule reconstruct_cell5)
qed

theorem share_calls_use_the_three_workers_witness:
  "(''model_enc'', share 1009 (\<lambda>k i j. 3) (fix_precision_tensor 1000 model) [alice, bob] james)
     \<in> set (cell5 1009 1000 (\<lambda>n k i j. 3)) \<and>
   parties (share 1009 (\<lambda>k i j. 3) (fix_precision_tensor 1000 model) [alice, bob] james) =
     set workers \<and>
   (1000 :: int) < 1009 \<and>
   map (\<lambda>(name, e). (name, reconstruct 1009 e)) (cell5 1009 1000 (\<lambda>n k i j. 3)) =
     [(''data_enc'', [[0, 0], [0, 1000], [1000, 0], [1000, 1000]]),
      (''target_enc'', [[0], [0], [1000], [1000]]),
      (''model_enc'', [[0], [0]]),
      (''learning_rate_fp'', [[100]])]"
proof -
  have mem: "(''model_enc'',
      share 1009 (\<lambda>k i j. 3) (fix_precision_tensor 1000 model) [alice, bob] james)
     \<in> set (cell5 1009 1000 (\<lambda>n k i j. 3))"
    by (simp add: cell5_def)
  have big: "(1000 :: int) < 1009"
    by simp
  have lr: "fix_precision 1000 learning_rate = 100"
    by (simp add: fix_precision_def learning_rate_def)
  from share_calls_use_the_three_workers [of 1009 1000 "\<lambda>n k i j. 3"] mem big
  show ?thesis
    by (auto simp: fixed_values lr)
qed

lemma float_prec_fix_precision_exact:
  assumes "s \<noteq> 0"
  shows "float_prec s (fix_precision s (of_int k / of_int s)) = of_int k / of_int s"
  using assms by (simp add: float_prec_def fix_precision_def)

text \<open>
  Claim C4. At a positive scale \<open>s\<close>, decoding an encoded number \<open>x\<close> gives
  \<open>round (x * s) / s\<close>, for single numbers and for every entry of a tensor, and a tensor
  whose entries are all of the form \<open>k / s\<close> for an integer \<open>k\<close> is recovered
  unchanged.
\<close>

theorem fix_precision_round_trip:
  assumes "0 < s"
  shows "float_prec s (fix_precision s x) = of_int (round (x * of_int s)) / of_int s \<and>
         float_precision_tensor s (fix_precision_tensor s A) =
           map (map (\<lambda>x. of_int (round (x * of_int s)) / of_int s)) A \<and>
         ((\<forall>row \<in> set A. \<forall>x \<in> set row. \<exists>k. x = of_int k / of_int s) \<longrightarrow>
            float_precision_tensor s (fix_precision_tensor s A) = A)"
proof (intro conjI impI)
  show "float_prec s (fix_precision s x) = of_int (round (x * of_int s)) / of_int s"
    by (simp add: float_prec_def fix_precision_def)
  show "float_precision_tensor s (fix_precision_tensor s A) =
           map (map (\<lambda>x. of_int (round (x * of_int s)) / of_int s)) A"
    by (simp add: float_precision_tensor_def fix_precision_tensor_def float_prec_def
        fix_precision_def comp_def)
  assume rep: "\<forall>row \<in> set A. \<forall>x \<in> set row. \<exists>k. x = of_int k / of_int s"
  have "float_prec s (fix_precision s x) = x" if "row \<in> set A" "x \<in> set row" for row x
  proof -
    from rep that obtain k where "x = of_int k / of_int s"
      by blast
    with assms show ?thesis
      by (simp add: float_prec_fix_precision_exact)
  qed
  then show "float_precision_tensor s (fix_precision_tensor s A) = A"
    by (simp add: float_precision_tensor_def fix_precision_tensor_def comp_def map_idI)
qed

theorem fix_precision_round_trip_witness:
  "(0::int) < 1000 \<and> learning_rate = of_int 100 / of_int 1000 \<and>
   fix_precision 1000 learning_rate = 100 \<and>
   float_prec 1000 (fix_precision 1000 learning_rate) = 1 / 10 \<and>
   float_precision_tensor 1000 (fix_precision_tensor 1000 [[learning_rate]]) = [[learning_rate]]"
proof -
  have pos: "(0::int) < 1000"
    by simp
  have lr: "learning_rate = of_int 100 / of_int 1000"
    by (simp add: learning_rate_def)
  then have rep: "\<forall>row \<in> set [[learning_rate]]. \<forall>x \<in> set row. \<exists>k. x = of_int k / of_int 1000"
    by (metis empty_iff empty_set set_ConsD)
  have enc: "fix_precision 1000 learning_rate = 100"
    by (simp add: fix_precision_def learning_rate_def)
  have dec: "float_prec 1000 (fix_precision 1000 learning_rate) = 1 / 10"
    by (simp add: enc float_prec_def)
  from fix_precision_round_trip [OF pos, of learning_rate "[[learning_rate]]"] rep
  have "float_precision_tensor 1000 (fix_precision_tensor 1000 [[learning_rate]]) =
      [[learning_rate]]"
    by blast
  with pos lr enc dec show ?thesis
    by blast
qed

section \<open>Properties of the Keras notebook\<close>

lemma row_major_index: "a < n \<Longrightarrow> b < r \<Longrightarrow> a * r + b < n * (r::nat)"
proof -
  assume "a < n" and "b < r"
  then have "a * r + b < a * r + r"
    by simp
  also have "\<dots> = Suc a * r"
    by simp
  also have "\<dots> \<le> n * r"
    using \<open>a < n\<close> by (intro mult_le_mono1) simp
  finally show ?thesis .
qed

lemma reshape_entries:
  assumes "reshape n r c ch x = Some x'"
  shows "entries x' \<subseteq> set (concat (concat x))"
proof
  let ?flat = "concat (concat x)"
  fix v
  assume v: "v \<in> entries x'"
  from assms have len: "length ?flat = n * r * c * ch"
    and x': "x' = map (\<lambda>a. map (\<lambda>b. map (\<lambda>d. map (\<lambda>e. ?flat ! (((a * r + b) * c + d) * ch + e))
                  [0..<ch]) [0..<c]) [0..<r]) [0..<n]"
    by (simp_all add: reshape_def Let_def split: if_splits)
  from v obtain a b d e where idx: "a < n" "b < r" "d < c" "e < ch"
    and ve: "v = ?flat ! (((a * r + b) * c + d) * ch + e)"
    unfolding x' entries_def by auto
  have "((a * r + b) * c + d) * ch + e < n * r * c * ch"
    using idx by (intro row_major_index)
  then have "((a * r + b) * c + d) * ch + e < length ?flat"
    by (simp only: len)
  then show "v \<in> set ?flat"
    unfolding ve by (rule nth_mem)
qed

lemma entries_map: "entries (map (map (map (map f))) x) = f ` entries x"
  by (auto simp: entries_def)

lemma round_half_even_error: "\<bar>of_int (round_half_even x) - x\<bar> \<le> 1 / 2"
proof -
  have "of_int \<lfloor>x\<rfloor> \<le> x" and "x < of_int \<lfloor>x\<rfloor> + 1"
    by linarith+
  then show ?thesis
    by (auto simp: round_half_even_def Let_def)
qed

lemma round_half_even_of_int: "round_half_even (of_int n) = n"
  by (simp add: round_half_even_def)

lemma round_half_even_le:
  assumes "x \<le> of_int n"
  shows "round_half_even x \<le> n"
proof (cases "x = of_int n")
  case True
  then show ?thesis
    by (simp add: round_half_even_of_int)
next
  case False
  with assms have "x < of_int n"
    by simp
  then have "\<lfloor>x\<rfloor> < n"
    by (simp add: floor_less_iff)
  then show ?thesis
    by (auto simp: round_half_even_def Let_def)
qed

lemma round_half_even_nonneg: "0 \<le> x \<Longrightarrow> 0 \<le> round_half_even x"
proof -
  assume "0 \<le> x"
  then have "0 \<le> \<lfloor>x\<rfloor>"
    by simp
  then show ?thesis
    by (auto simp: round_half_even_def Let_def)
qed

lemma exponent_le:
  assumes "0 < q" and "q \<le> 1"
  shows "exponent q \<le> 0" and "q < 1 \<Longrightarrow> exponent q \<le> - 1"
proof -
  obtain a b where ab: "quotient_of q = (a, b)"
    by (cases "quotient_of q")
  then have b: "0 < b" and q: "q = of_int a / of_int b"
    by (simp_all add: quotient_of_denom_pos quotient_of_div)
  have "of_int a / (of_int b :: rat) \<le> 1"
    using assms q by simp
  then have "(of_int a :: rat) \<le> of_int b"
    using b by (simp add: pos_divide_le_eq)
  then have "a \<le> b"
    by simp
  then have d: "int (floorlog 2 (nat a)) - int (floorlog 2 (nat b)) \<le> 0"
    by (simp add: floorlog_mono)
  have abs: "\<bar>q\<bar> = q"
    using assms by simp
  show "exponent q \<le> 0"
    using d by (simp add: exponent_def abs ab Let_def)
  show "exponent q \<le> - 1" if "q < 1"
    using d that by (cases "int (floorlog 2 (nat a)) - int (floorlog 2 (nat b)) = 0")
      (simp_all add: exponent_def abs ab Let_def)
qed


lemma float32_unit_interval:
  assumes "0 \<le> q" and "q \<le> 1"
  shows "0 \<le> float32 q \<and> float32 q \<le> 1 \<and> \<bar>float32 q - q\<bar> \<le> 1 / 2 ^ 25"
proof (cases "q = 0")
  case True
  then show ?thesis
    by (simp add: float32_def)
next
  case False
  with assms have pos: "0 < q"
    by simp
  define m where "m = max (exponent q) (- 126) - 23"
  define n where "n = nat (- m)"
  define r where "r = round_half_even (q * 2 ^ n)"
  have "m \<le> - 23"
    using exponent_le(1) [OF pos assms(2)] by (simp add: m_def)
  then have m: "m = - int n"
    by (simp add: n_def)
  have u: "(2::rat) powi m = 1 / 2 ^ n"
    by (simp add: m power_int_minus_divide)
  have fl: "float32 q = of_int r / 2 ^ n"
    using False by (simp add: float32_def Let_def m_def [symmetric] u r_def)
  have "0 \<le> q * 2 ^ n"
    using assms by simp
  then have r0: "0 \<le> r"
    unfolding r_def by (rule round_half_even_nonneg)
  have "q * 2 ^ n \<le> of_int (2 ^ n)"
    using assms by simp
  then have "r \<le> 2 ^ n"
    unfolding r_def by (rule round_half_even_le)
  then have "(of_int r :: rat) \<le> of_int (2 ^ n)"
    by (simp only: of_int_le_iff)
  then have r1: "(of_int r :: rat) \<le> 2 ^ n"
    by simp
  have err: "\<bar>of_int r - q * 2 ^ n\<bar> \<le> 1 / 2"
    unfolding r_def by (rule round_half_even_error)
  have "\<bar>float32 q - q\<bar> = \<bar>of_int r - q * 2 ^ n\<bar> / 2 ^ n"
    by (simp add: fl field_simps abs_divide)
  also have "\<dots> \<le> (1 / 2) / 2 ^ n"
    using err by (rule divide_right_mono) simp
  finally have bound: "\<bar>float32 q - q\<bar> \<le> 1 / 2 ^ Suc n"
    by simp
  have close: "\<bar>float32 q - q\<bar> \<le> 1 / 2 ^ 25"
  proof (cases "q = 1")
    case True
    have "round_half_even (of_int (2 ^ n)) = 2 ^ n"
      by (rule round_half_even_of_int)
    then have "r = 2 ^ n"
      by (simp add: r_def True)
    with fl have "float32 q = 1"
      by simp
    with True show ?thesis
      by simp
  next
    case False
    with assms have "q < 1"
      by simp
    then have "m \<le> - 24"
      using exponent_le(2) [OF pos assms(2)] by (simp add: m_def)
    then have "25 \<le> Suc n"
      by (simp add: n_def)
    then have "(2::rat) ^ 25 \<le> 2 ^ Suc n"
      by (rule power_increasing) simp
    then have "1 / (2::rat) ^ Suc n \<le> 1 / 2 ^ 25"
      by (simp add: frac_le)
    with bound show ?thesis
      by linarith
  qed
  from r0 r1 close show ?thesis
    by (simp add: fl)
qed

lemma float32_of_nat:
  assumes "k < 2 ^ 24"
  shows "float32 (of_nat k) = of_nat k"
proof (cases "k = 0")
  case True
  then show ?thesis
    by (simp add: float32_def)
next
  case False
  then have k: "0 < k"
    by simp
  define l where "l = floorlog 2 k"
  have l1: "1 \<le> l"
    using k by (simp add: l_def floorlog_def)
  have l24: "l \<le> 24"
    unfolding l_def using assms by (intro floorlog_leI) simp_all
  have low: "2 ^ (l - 1) \<le> k"
    unfolding l_def using floorlog_bounds [of k 2] k by simp
  have q: "quotient_of \<bar>of_nat k\<bar> = (int k, 1)"
    by simp
  have one: "floorlog 2 (Suc 0) = 1"
    by (simp add: floorlog_def)
  have d: "int l - 1 = int (l - 1)"
    using l1 by simp
  have "(2::rat) ^ (l - 1) \<le> of_nat k"
    using low by (metis of_nat_le_iff of_nat_numeral of_nat_power)
  then have e: "exponent (of_nat k) = int (l - 1)"
    by (simp add: exponent_def q one l_def [symmetric] d Let_def)
  define n where "n = 24 - l"
  have m: "max (exponent (of_nat k)) (- 126) - 23 = - int n"
    using l1 l24 by (simp add: e n_def)
  have u: "(2::rat) powi (- int n) = 1 / 2 ^ n"
    by (simp add: power_int_minus_divide)
  have "round_half_even (of_int (int k * 2 ^ n)) = int k * 2 ^ n"
    by (rule round_half_even_of_int)
  then have "round_half_even (of_nat k * 2 ^ n) = int k * 2 ^ n"
    by simp
  then have "of_int (round_half_even (of_nat k / (1 / 2 ^ n))) * (1 / 2 ^ n) = (of_nat k :: rat)"
    by simp
  then show ?thesis
    using k unfolding float32_def Let_def m u by simp
qed

lemma float32_byte: "float32 (of_nat (unat (p :: 8 word))) = of_nat (unat p)"
proof -
  have "unat p < 2 ^ 8"
    using unsigned_less [of p, where 'a = nat] by simp
  also have "\<dots> < (2::nat) ^ 24"
    by simp
  finally show ?thesis
    by (rule float32_of_nat)
qed

lemma float32_unsigned: "float32 (unsigned (p :: 8 word)) = unsigned p"
  using float32_byte [of p] by simp

lemma float32_255: "float32 255 = 255"
  using float32_of_nat [of 255] by simp

lemma float32_fifth: "float32 (1 / 5) = 13421773 / 67108864"
  by code_simp

lemma float32_one: "float32 1 = 1"
  using float32_of_nat [of 1] by simp

lemma byte_scaled:
  fixes p :: "8 word"
  shows "0 \<le> float32 (of_nat (unat p) / 255) \<and> float32 (of_nat (unat p) / 255) \<le> 1 \<and>
         \<bar>float32 (of_nat (unat p) / 255) - of_nat (unat p) / 255\<bar> \<le> 1 / 2 ^ 25"
proof -
  have bound: "0 \<le> float32 (of_nat n / 255) \<and> float32 (of_nat n / 255) \<le> 1 \<and>
      \<bar>float32 (of_nat n / 255) - of_nat n / 255\<bar> \<le> 1 / 2 ^ 25" if "n \<le> 255" for n :: nat
    using that by (intro float32_unit_interval) simp_all
  have "unat p < 2 ^ 8"
    using unsigned_less [of p, where 'a = nat] by simp
  then have "unat p \<le> 255"
    by simp
  then show ?thesis
    by (rule bound)
qed

lemma preprocess_entries:
  assumes "preprocess x = Some x'"
  shows "\<forall>e \<in> entries x'.
           (\<exists>k \<in> set (concat (concat x)). e = float32 (of_nat (unat k) / 255) \<and>
              \<bar>e - of_nat (unat k) / 255\<bar> \<le> 1 / 2 ^ 25) \<and> 0 \<le> e \<and> e \<le> 1"
proof
  fix e
  assume e: "e \<in> entries x'"
  from assms obtain x0 where r: "reshape (length x) img_rows img_cols 1 x = Some x0"
    and x': "x' = divide_by 255 (astype_float32 x0)"
    by (auto simp: preprocess_def split: option.splits)
  from e obtain k where k: "k \<in> entries x0" and ek: "e = float32 (of_nat (unat k) / 255)"
    unfolding x' divide_by_def astype_float32_def
    by (auto simp: entries_map float32_unsigned float32_255)
  from k reshape_entries [OF r] have "k \<in> set (concat (concat x))"
    by blast
  with ek byte_scaled [of k]
  show "(\<exists>k \<in> set (concat (concat x)). e = float32 (of_nat (unat k) / 255) \<and>
              \<bar>e - of_nat (unat k) / 255\<bar> \<le> 1 / 2 ^ 25) \<and> 0 \<le> e \<and> e \<le> 1"
    by blast
qed

lemma layers_build_model:
  "layers build_model =
     [Conv2D 10 (3, 3) (Some (28, 28, 1)), AveragePooling2D (2, 2), Activation ''relu'',
      Conv2D 32 (3, 3) None, AveragePooling2D (2, 2), Activation ''relu'',
      Conv2D 64 (3, 3) None, AveragePooling2D (2, 2), Activation ''relu'',
      Flatten, Dense 10 ''softmax'']"
  by (simp add: build_model_def Let_def add_def compile_def Sequential_def input_shape_def
      img_rows_def img_cols_def num_classes_def)

lemma compiled_build_model:
  "compiled build_model =
     Some \<lparr>loss_fn = ''categorical_crossentropy'', optimizer = ''Adadelta'',
           metrics = [''accuracy'']\<rparr>"
  by (simp add: build_model_def Let_def add_def compile_def Sequential_def)

lemma concat_replicate_replicate: "concat (replicate n (replicate m a)) = replicate (n * m) a"
  by (induction n) (simp_all add: replicate_add)

lemma reshape_constant_image:
  "reshape n r c 1 (replicate n (replicate r (replicate c p))) =
     Some (replicate n (replicate r (replicate c [p])))"
proof -
  let ?flat = "concat (concat (replicate n (replicate r (replicate c p))))"
  have flat: "?flat = replicate (n * r * c) p"
    by (simp add: concat_replicate_replicate)
  have "?flat ! (((a * r + b) * c + d) * 1 + e) = p" if "a < n" "b < r" "d < c" "e < 1" for a b d e
  proof -
    have "(a * r + b) * c + d < n * r * c"
      using that by (intro row_major_index)
    then show ?thesis
      using that unfolding flat by simp
  qed
  then have "map (\<lambda>a. map (\<lambda>b. map (\<lambda>d. map (\<lambda>e. ?flat ! (((a * r + b) * c + d) * 1 + e))
                  [0..<1]) [0..<c]) [0..<r]) [0..<n] =
        map (\<lambda>a. map (\<lambda>b. map (\<lambda>d. map (\<lambda>e. p) [0..<1]) [0..<c]) [0..<r]) [0..<n]"
    by (intro map_cong refl) simp
  also have "\<dots> = replicate n (replicate r (replicate c [p]))"
    by (simp add: map_replicate_const)
  finally show ?thesis
    unfolding reshape_def Let_def flat by simp
qed

lemma preprocess_constant_image:
  "preprocess [replicate 28 (replicate 28 p)] =
     Some [replicate 28 (replicate 28 [float32 (of_nat (unat p) / 255)])]"
  using reshape_constant_image [of 1 28 28 p]
  by (simp add: preprocess_def img_rows_def img_cols_def divide_by_def astype_float32_def
      float32_unsigned float32_255)

lemma preprocess_white:
  "preprocess [replicate 28 (replicate 28 255)] = Some [replicate 28 (replicate 28 [1])]"
  by (simp add: preprocess_constant_image float32_one)

lemma preprocess_grey:
  "preprocess [replicate 28 (replicate 28 51)] =
     Some [replicate 28 (replicate 28 [13421773 / 67108864])]"
  by (simp add: preprocess_constant_image float32_fifth)

lemma notebook_13a_runs:
  assumes "preprocess x_train = Some x" and "to_categorical y_train 10 = Some y"
    and "preprocess x_test = Some xv" and "to_categorical y_test 10 = Some yv"
  shows "notebook_13a ((x_train, y_train), (x_test, y_test)) =
           Some (build_model,
                 [Fit x y 128 2 1 (xv, yv), Evaluate xv yv 0, Save ''short-conv-mnist.h5''])"
  using assms by (simp add: notebook_13a_def num_classes_def batch_size_def epochs_def)

lemma to_categorical_5: "to_categorical [5] 10 = Some [[0, 0, 0, 0, 0, 1, 0, 0, 0, 0]]"
  by code_simp

lemma to_categorical_7: "to_categorical [7] 10 = Some [[0, 0, 0, 0, 0, 0, 0, 1, 0, 0]]"
  by code_simp

text \<open>
  Claim C8, as stated: every entry of the preprocessed images equals \<open>k / 255\<close> for an
  original pixel byte \<open>k\<close>. The division is done in float32, and \<open>51 / 255\<close> is not a
  float32: an image whose pixels are all 51 is preprocessed to entries
  \<open>13421773 / 67108864\<close>, which is not a byte divided by 255.
\<close>

theorem pixel_51_is_not_a_255th:
  "preprocess [replicate 28 (replicate 28 51)] =
     Some [replicate 28 (replicate 28 [13421773 / 67108864])] \<and>
   (13421773 / 67108864 :: rat) \<in> entries [replicate 28 (replicate 28 [13421773 / 67108864])] \<and>
   set (concat (concat [replicate 28 (replicate 28 (51 :: 8 word))])) = {51} \<and>
   (13421773 / 67108864 :: rat) \<noteq> of_nat (unat (51 :: 8 word)) / 255 \<and>
   (13421773 / 67108864 :: rat) \<notin> range (\<lambda>k :: nat. of_nat k / 255)"
proof -
  have "(13421773 / 67108864 :: rat) \<noteq> of_nat k / 255" for k :: nat
  proof
    assume "(13421773 / 67108864 :: rat) = of_nat k / 255"
    then have "(of_nat (13421773 * 255) :: rat) = of_nat (k * 67108864)"
      by (simp add: field_simps)
    then have "13421773 * 255 = k * 67108864"
      by (simp only: of_nat_eq_iff)
    moreover have "even (k * 67108864)"
      by simp
    moreover have "odd (13421773 * 255 :: nat)"
      by simp
    ultimately show False
      by simp
  qed
  then have "(13421773 / 67108864 :: rat) \<notin> range (\<lambda>k :: nat. of_nat k / 255)"
    by blast
  then show ?thesis
    by (simp add: preprocess_grey entries_def)
qed

text \<open>
  Claim C8, amended. When the notebook reaches \<open>model.fit\<close>, the training images and the
  validation images passed to it are the preprocessed \<open>x_train\<close> and \<open>x_test\<close>, and
  every entry of them is the float32 quotient of a pixel byte \<open>k\<close> of the loaded images by
  255: the float32 nearest to \<open>k / 255\<close>, which differs from it by at most \<open>2\<^sup>-\<^sup>2\<^sup>5\<close>,
  and lies between 0 and 1.
\<close>

theorem pixels_scaled_in_float32:
  assumes "notebook_13a ((x_train, y_train), (x_test, y_test)) =
             Some (m, Fit x y b ep vb (xv, yv) # calls)"
  shows "preprocess x_train = Some x \<and> preprocess x_test = Some xv \<and>
         (\<forall>e \<in> entries x.
            (\<exists>k \<in> set (concat (concat x_train)). e = float32 (of_nat (unat k) / 255) \<and>
               \<bar>e - of_nat (unat k) / 255\<bar> \<le> 1 / 2 ^ 25) \<and> 0 \<le> e \<and> e \<le> 1) \<and>
         (\<forall>e \<in> entries xv.
            (\<exists>k \<in> set (concat (concat x_test)). e = float32 (of_nat (unat k) / 255) \<and>
               \<bar>e - of_nat (unat k) / 255\<bar> \<le> 1 / 2 ^ 25) \<and> 0 \<le> e \<and> e \<le> 1)"
proof -
  from assms have x: "preprocess x_train = Some x" and xv: "preprocess x_test = Some xv"
    by (auto simp: notebook_13a_def split: option.splits Option.bind_splits)
  with preprocess_entries [OF x] preprocess_entries [OF xv] show ?thesis
    by blast
qed

theorem pixels_scaled_in_float32_witness:
  "notebook_13a (([replicate 28 (replicate 28 255)], [5]), ([replicate 28 (replicate 28 51)], [7])) =
     Some (build_model,
           Fit [replicate 28 (replicate 28 [1])] [[0, 0, 0, 0, 0, 1, 0, 0, 0, 0]] 128 2 1
             ([replicate 28 (replicate 28 [13421773 / 67108864])],
              [[0, 0, 0, 0, 0, 0, 0, 1, 0, 0]])
           # [Evaluate [replicate 28 (replicate 28 [13421773 / 67108864])]
                [[0, 0, 0, 0, 0, 0, 0, 1, 0, 0]] 0,
              Save ''short-conv-mnist.h5'']) \<and>
   (1 :: rat) \<in> entries [replicate 28 (replicate 28 [1])] \<and>
   (\<exists>k \<in> set (concat (concat [replicate 28 (replicate 28 (255 :: 8 word))])).
      (1 :: rat) = float32 (of_nat (unat k) / 255) \<and>
      \<bar>(1 :: rat) - of_nat (unat k) / 255\<bar> \<le> 1 / 2 ^ 25) \<and>
   (13421773 / 67108864 :: rat) \<in> entries [replicate 28 (replicate 28 [13421773 / 67108864])] \<and>
   (\<exists>k \<in> set (concat (concat [replicate 28 (replicate 28 (51 :: 8 word))])).
      (13421773 / 67108864 :: rat) = float32 (of_nat (unat k) / 255) \<and>
      \<bar>(13421773 / 67108864 :: rat) - of_nat (unat k) / 255\<bar> \<le> 1 / 2 ^ 25) \<and>
   (0 :: rat) \<le> 13421773 / 67108864 \<and> (13421773 / 67108864 :: rat) \<le> 1"
proof -
  have run: "notebook_13a
      (([replicate 28 (replicate 28 255)], [5]), ([replicate 28 (replicate 28 51)], [7])) =
     Some (build_model,
           Fit [replicate 28 (replicate 28 [1])] [[0, 0, 0, 0, 0, 1, 0, 0, 0, 0]] 128 2 1
             ([replicate 28 (replicate 28 [13421773 / 67108864])],
              [[0, 0, 0, 0, 0, 0, 0, 1, 0, 0]])
           # [Evaluate [replicate 28 (replicate 28 [13421773 / 67108864])]
                [[0, 0, 0, 0, 0, 0, 0, 1, 0, 0]] 0,
              Save ''short-conv-mnist.h5''])"
    using notebook_13a_runs [OF preprocess_white to_categorical_5 preprocess_grey to_categorical_7]
    by simp
  have e1: "(1 :: rat) \<in> entries [replicate 28 (replicate 28 [1])]"
    and e2: "(13421773 / 67108864 :: rat) \<in>
      entries [replicate 28 (replicate 28 [13421773 / 67108864])]"
    by (simp_all add: entries_def)
  from pixels_scaled_in_float32 [OF run] run e1 e2 show ?thesis
    by blast
qed

text \<open>
  Claim C6. The model that the notebook builds is three blocks of a 3 by 3 convolution
  (10, 32 and 64 filters), a 2 by 2 average pooling and a ReLU activation, then
  \<open>Flatten\<close> and a dense softmax layer with 10 units, compiled with the categorical
  cross-entropy loss; and whenever the preprocessing of the loaded data succeeds, the
  notebook fits this model on the preprocessed training set with batch size 128 for 2 epochs,
  with the preprocessed test set as validation data.
\<close>

theorem keras_classifier_is_built_and_trained:
  "layers build_model =
     [Conv2D 10 (3, 3) (Some (28, 28, 1)), AveragePooling2D (2, 2), Activation ''relu'',
      Conv2D 32 (3, 3) None, AveragePooling2D (2, 2), Activation ''relu'',
      Conv2D 64 (3, 3) None, AveragePooling2D (2, 2), Activation ''relu'',
      Flatten, Dense 10 ''softmax''] \<and>
   compiled build_model =
     Some \<lparr>loss_fn = ''categorical_crossentropy'', optimizer = ''Adadelta'',
           metrics = [''accuracy'']\<rparr> \<and>
   (preprocess x_train = Some x \<and> to_categorical y_train 10 = Some y \<and>
    preprocess x_test = Some xv \<and> to_categorical y_test 10 = Some yv \<longrightarrow>
      notebook_13a ((x_train, y_train), (x_test, y_test)) =
        Some (build_model,
              [Fit x y 128 2 1 (xv, yv), Evaluate xv yv 0, Save ''short-conv-mnist.h5'']))"
  using notebook_13a_runs [of x_train x y_train y x_test xv y_test yv]
  by (simp add: layers_build_model compiled_build_model)

theorem keras_classifier_is_built_and_trained_witness:
  "preprocess [replicate 28 (replicate 28 255)] = Some [replicate 28 (replicate 28 [1])] \<and>
   to_categorical [5] 10 = Some [[0, 0, 0, 0, 0, 1, 0, 0, 0, 0]] \<and>
   preprocess [replicate 28 (replicate 28 51)] =
     Some [replicate 28 (replicate 28 [13421773 / 67108864])] \<and>
   to_categorical [7] 10 = Some [[0, 0, 0, 0, 0, 0, 0, 1, 0, 0]] \<and>
   notebook_13a (([replicate 28 (replicate 28 255)], [5]), ([replicate 28 (replicate 28 51)], [7])) =
     Some (build_model,
           [Fit [replicate 28 (replicate 28 [1])] [[0, 0, 0, 0, 0, 1, 0, 0, 0, 0]] 128 2 1
              ([replicate 28 (replicate 28 [13421773 / 67108864])],
               [[0, 0, 0, 0, 0, 0, 0, 1, 0, 0]]),
            Evaluate [replicate 28 (replicate 28 [13421773 / 67108864])]
              [[0, 0, 0, 0, 0, 0, 0, 1, 0, 0]] 0,
            Save ''short-conv-mnist.h5''])"
proof -
  from keras_classifier_is_built_and_trained
    [of "[replicate 28 (replicate 28 255)]" "[replicate 28 (replicate 28 [1])]" "[5]"
        "[[0, 0, 0, 0, 0, 1, 0, 0, 0, 0]]" "[replicate 28 (replicate 28 51)]"
        "[replicate 28 (replicate 28 [13421773 / 67108864])]" "[7]"
        "[[0, 0, 0, 0, 0, 0, 0, 1, 0, 0]]"]
    preprocess_white preprocess_grey to_categorical_5 to_categorical_7
  show ?thesis
    by blast
qed

text \<open>
  Claim C9. The input shape is 28 by 28 by 1, and on it every layer of the stack accepts
  the output of the one before: the spatial size goes 26, 13, 11, 5, 3, 1 through the
  convolutions and poolings, \<open>Flatten\<close> yields 64 features and the dense layer 10.
\<close>

theorem layer_stack_is_shape_compatible:
  "input_shape = (28, 28, 1) \<and>
   output_shapes (layers build_model) (Map 28 28 1) =
     Some [Map 26 26 10, Map 13 13 10, Map 13 13 10,
           Map 11 11 32, Map 5 5 32, Map 5 5 32,
           Map 3 3 64, Map 1 1 64, Map 1 1 64,
           Vec 64, Vec 10]"
  by (simp add: layers_build_model input_shape_def img_rows_def img_cols_def)

section \<open>The training logic of the two notebooks\<close>




end
